theory Spec2Isabelle
  imports Complex_Main
begin

section \<open>Values held in a chunk\<close>

text \<open>
  The loader (\<^verbatim>\<open>src/etl/etl.py\<close>) reads the extract with \<^verbatim>\<open>pd.read_csv\<close> and hands
  every chunk to \<^verbatim>\<open>clean_data\<close>. A cell of a chunk is a Python scalar. The three
  missing-value markers are kept apart, because the code itself tells them apart:
  \<^verbatim>\<open>np.nan\<close> (what \<^verbatim>\<open>read_csv\<close> puts for an empty field and what \<^verbatim>\<open>to_numeric\<close>
  coerces to), \<^verbatim>\<open>pd.NaT\<close> (what \<^verbatim>\<open>to_datetime\<close> coerces to) and Python's \<^verbatim>\<open>None\<close>.
  Numbers are exact reals: no claim below depends on binary rounding, and an integer
  and the float of the same value are one number to the sink. A timestamp is its count
  of nanoseconds since the epoch, as pandas stores it.
\<close>

datatype cell = NaN | NaT | PyNone | Str string | Num real | Ts int

text \<open>\<^verbatim>\<open>pd.isna\<close> on a scalar.\<close>

fun isna :: "cell \<Rightarrow> bool" where
  "isna NaN = True"
| "isna NaT = True"
| "isna PyNone = True"
| "isna (Str s) = False"
| "isna (Num x) = False"
| "isna (Ts t) = False"

text \<open>
  \<^verbatim>\<open>
  def safe_value(val):
      if pd.isna(val):
          return None
      return val
  \<close>
\<close>

definition safe_value :: "cell \<Rightarrow> cell" where
  "safe_value val = (if isna val then PyNone else val)"

section \<open>Chunks\<close>

text \<open>
  A row is what \<^verbatim>\<open>iterrows\<close> yields: a series of cells labelled by the column names.
  A chunk is a data frame: its column index and its rows. \<^verbatim>\<open>read_csv\<close> gives every row
  the labels of the column index, in order (\<open>wf_df\<close>).
\<close>

type_synonym series = "(string \<times> cell) list"

record dataframe =
  df_columns :: "string list"
  df_rows :: "series list"

definition len_df :: "dataframe \<Rightarrow> nat" where
  "len_df df = length (df_rows df)"

definition wf_df :: "dataframe \<Rightarrow> bool" where
  "wf_df df = list_all (\<lambda>r. map fst r = df_columns df) (df_rows df)"

text \<open>\<^verbatim>\<open>row.get(key, default)\<close>: the cell under the label, the default when there is none.\<close>

definition row_get :: "series \<Rightarrow> string \<Rightarrow> cell \<Rightarrow> cell" where
  "row_get row key dflt = (case map_of row key of None \<Rightarrow> dflt | Some v \<Rightarrow> v)"

text \<open>The cell of row \<open>i\<close> under a label, if the row index and the label exist.\<close>

definition cell_at :: "dataframe \<Rightarrow> nat \<Rightarrow> string \<Rightarrow> cell option" where
  "cell_at df i key = (if i < len_df df then map_of (df_rows df ! i) key else None)"

text \<open>
  \<^verbatim>\<open>df[name] = f(df[name])\<close> for a transformation \<open>f\<close> that works cell by cell.
\<close>

definition assign_col :: "string \<Rightarrow> (cell \<Rightarrow> cell) \<Rightarrow> dataframe \<Rightarrow> dataframe" where
  "assign_col name f df =
     df\<lparr>df_rows := map (map (\<lambda>(k, c). (k, if k = name then f c else c))) (df_rows df)\<rparr>"

text \<open>\<^verbatim>\<open>df.replace(...)\<close> over the whole frame, cell by cell.\<close>

definition map_cells :: "(cell \<Rightarrow> cell) \<Rightarrow> dataframe \<Rightarrow> dataframe" where
  "map_cells f df = df\<lparr>df_rows := map (map (\<lambda>(k, c). (k, f c))) (df_rows df)\<rparr>"

section \<open>The pandas operations used by the cleaning step\<close>

text \<open>
  What pandas does with a given text is not part of the repository, so the parsers are
  parameters: \<open>datetime_of_str\<close> and \<open>datetime_of_num\<close> are \<^verbatim>\<open>to_datetime\<close> on a
  string and on a number (\<open>None\<close> where it cannot parse), \<open>numeric_of_str\<close> is
  \<^verbatim>\<open>to_numeric\<close> on a string. Whether \<^verbatim>\<open>replace({np.nan: None})\<close> also rewrites
  \<^verbatim>\<open>NaT\<close> in a datetime column has changed between pandas releases; \<open>nan_matches_nat\<close>
  says which one is installed.
\<close>

record pandas =
  datetime_of_str :: "string \<Rightarrow> int option"
  datetime_of_num :: "real \<Rightarrow> int option"
  numeric_of_str :: "string \<Rightarrow> real option"
  nan_matches_nat :: bool

text \<open>\<^verbatim>\<open>Series.fillna(value)\<close> and \<^verbatim>\<open>Series.replace(old, new)\<close>, on one cell.\<close>

definition fillna :: "cell \<Rightarrow> cell \<Rightarrow> cell" where
  "fillna v c = (if isna c then v else c)"

definition replace_val :: "cell \<Rightarrow> cell \<Rightarrow> cell \<Rightarrow> cell" where
  "replace_val old new c = (if c = old then new else c)"

text \<open>
  \<^verbatim>\<open>pd.to_datetime(_, errors='coerce')\<close> and \<^verbatim>\<open>pd.to_numeric(_, errors='coerce')\<close>, on
  one cell. Neither raises: what cannot be converted becomes \<^verbatim>\<open>NaT\<close>, respectively
  \<^verbatim>\<open>NaN\<close>. (\<^verbatim>\<open>read_csv\<close> produces only \<open>NaN\<close>, \<open>Str\<close> and \<open>Num\<close> cells; the other
  equations make the functions total.)
\<close>

fun to_datetime :: "pandas \<Rightarrow> cell \<Rightarrow> cell" where
  "to_datetime lib (Str s) = (case datetime_of_str lib s of None \<Rightarrow> NaT | Some t \<Rightarrow> Ts t)"
| "to_datetime lib (Num x) = (case datetime_of_num lib x of None \<Rightarrow> NaT | Some t \<Rightarrow> Ts t)"
| "to_datetime lib (Ts t) = Ts t"
| "to_datetime lib NaN = NaT"
| "to_datetime lib NaT = NaT"
| "to_datetime lib PyNone = NaT"

fun to_numeric :: "pandas \<Rightarrow> cell \<Rightarrow> cell" where
  "to_numeric lib (Str s) = (case numeric_of_str lib s of None \<Rightarrow> NaN | Some x \<Rightarrow> Num x)"
| "to_numeric lib (Num x) = Num x"
| "to_numeric lib (Ts t) = Num (of_int t)"
| "to_numeric lib NaN = NaN"
| "to_numeric lib NaT = NaN"
| "to_numeric lib PyNone = NaN"

text \<open>\<^verbatim>\<open>replace({np.nan: None})\<close>, on one cell.\<close>

definition replace_nan :: "pandas \<Rightarrow> cell \<Rightarrow> cell" where
  "replace_nan lib c =
     (if c = NaN \<or> (c = NaT \<and> nan_matches_nat lib) then PyNone else c)"

section \<open>Cleaning\<close>

text \<open>
  \<^verbatim>\<open>
  def clean_data(df):
      if 'Borough' in df.columns:
          df['Borough'] = df['Borough'].fillna('UNKNOWN').replace('', 'UNKNOWN')
      if 'Created Date' in df.columns:
          df['Created Date'] = pd.to_datetime(df['Created Date'], errors='coerce')
      if 'Closed Date' in df.columns:
          df['Closed Date'] = pd.to_datetime(df['Closed Date'], errors='coerce')
      if 'Latitude' in df.columns:
          df['Latitude'] = pd.to_numeric(df['Latitude'], errors='coerce')
      if 'Longitude' in df.columns:
          df['Longitude'] = pd.to_numeric(df['Longitude'], errors='coerce')
      df = df.replace({np.nan: None})
      return df
  \<close>
\<close>

definition clean_borough :: "cell \<Rightarrow> cell" where
  "clean_borough c = replace_val (Str '''') (Str ''UNKNOWN'') (fillna (Str ''UNKNOWN'') c)"

definition clean_data :: "pandas \<Rightarrow> dataframe \<Rightarrow> dataframe" where
  "clean_data lib df =
     (let df1 = (if ''Borough'' \<in> set (df_columns df)
                 then assign_col ''Borough'' clean_borough df else df);
          df2 = (if ''Created Date'' \<in> set (df_columns df1)
                 then assign_col ''Created Date'' (to_datetime lib) df1 else df1);
          df3 = (if ''Closed Date'' \<in> set (df_columns df2)
                 then assign_col ''Closed Date'' (to_datetime lib) df2 else df2);
          df4 = (if ''Latitude'' \<in> set (df_columns df3)
                 then assign_col ''Latitude'' (to_numeric lib) df3 else df3);
          df5 = (if ''Longitude'' \<in> set (df_columns df4)
                 then assign_col ''Longitude'' (to_numeric lib) df4 else df4)
      in map_cells (replace_nan lib) df5)"

section \<open>The write step\<close>

text \<open>
  The nine parameters bound into the statement, in the order of its column list:
  \<^verbatim>\<open>
  (safe_value(row.get('Unique Key')), safe_value(row.get('Created Date')),
   safe_value(row.get('Closed Date')), safe_value(row.get('Agency')),
   safe_value(row.get('Complaint Type')), safe_value(row.get('Descriptor')),
   safe_value(row.get('Borough', 'UNKNOWN')), safe_value(row.get('Latitude')),
   safe_value(row.get('Longitude')))
  \<close>
\<close>

record service_request =
  unique_key :: cell
  created_date :: cell
  closed_date :: cell
  agency :: cell
  complaint_type :: cell
  descriptor :: cell
  borough :: cell
  latitude :: cell
  longitude :: cell

definition bind_params :: "series \<Rightarrow> service_request" where
  "bind_params row =
     \<lparr>unique_key = safe_value (row_get row ''Unique Key'' PyNone),
      created_date = safe_value (row_get row ''Created Date'' PyNone),
      closed_date = safe_value (row_get row ''Closed Date'' PyNone),
      agency = safe_value (row_get row ''Agency'' PyNone),
      complaint_type = safe_value (row_get row ''Complaint Type'' PyNone),
      descriptor = safe_value (row_get row ''Descriptor'' PyNone),
      borough = safe_value (row_get row ''Borough'' (Str ''UNKNOWN'')),
      latitude = safe_value (row_get row ''Latitude'' PyNone),
      longitude = safe_value (row_get row ''Longitude'' PyNone)\<rparr>"

definition params_list :: "service_request \<Rightarrow> cell list" where
  "params_list p =
     [unique_key p, created_date p, closed_date p, agency p, complaint_type p,
      descriptor p, borough p, latitude p, longitude p]"

section \<open>The sink\<close>

text \<open>
  Modelled from the spec: the definition of the table \<^verbatim>\<open>service_requests\<close> is not among
  the sources. The spec gives it the nine columns of the statement with \<^verbatim>\<open>unique_key\<close> as
  primary key, so \<^verbatim>\<open>REPLACE INTO\<close> deletes every stored row with the key of the new row
  and then inserts the new row. The table is the list of its rows.
\<close>

type_synonym table = "service_request list"

definition replace_into :: "service_request \<Rightarrow> table \<Rightarrow> table" where
  "replace_into p tbl = filter (\<lambda>r. unique_key r \<noteq> unique_key p) tbl @ [p]"

definition rows_under :: "cell \<Rightarrow> table \<Rightarrow> service_request list" where
  "rows_under k tbl = filter (\<lambda>r. unique_key r = k) tbl"

text \<open>
  The connection: what is committed, what the open transaction sees, and whether the
  cursor and the connection are still open. pymysql does not commit by itself.
\<close>

record connection =
  committed :: table
  pending :: table
  cursor_open :: bool
  conn_open :: bool

text \<open>
  \<^verbatim>\<open>cursor.execute\<close> either raises (the sink rejects the parameters, with a message) and
  leaves the table as it was, or replaces.
\<close>

definition execute ::
  "(service_request \<Rightarrow> string option) \<Rightarrow> service_request \<Rightarrow> connection \<Rightarrow> string + connection"
where
  "execute rej p c =
     (case rej p of
        Some e \<Rightarrow> Inl e
      | None \<Rightarrow> Inr (c\<lparr>pending := replace_into p (pending c)\<rparr>))"

definition commit :: "connection \<Rightarrow> connection" where
  "commit c = c\<lparr>committed := pending c\<rparr>"

definition rollback :: "connection \<Rightarrow> connection" where
  "rollback c = c\<lparr>pending := committed c\<rparr>"

definition close_all :: "connection \<Rightarrow> connection" where
  "close_all c = c\<lparr>cursor_open := False, conn_open := False\<rparr>"

section \<open>Console output\<close>

datatype line =
    Starting
  | CsvColumns "string list"
  | Blank
  | ProcessingChunk nat nat
  | ErrorInserting cell string
  | Inserted nat nat
  | Rule
  | StatsTitle
  | TotalRows nat
  | ErrorsEncountered nat
  | Duration string
  | Speed string
  | ErrorDuringETL string
  | Traceback string

fun is_row_error :: "line \<Rightarrow> bool" where
  "is_row_error (ErrorInserting k e) = True"
| "is_row_error _ = False"

text \<open>
  Python's \<^verbatim>\<open>f"{x:.2f}"\<close>: the nearest multiple of 1/100, a tie going to the even one,
  written with its sign, the integer part and two decimals.
\<close>

definition digit_char :: "nat \<Rightarrow> char" where
  "digit_char d = ''0123456789'' ! (d mod 10)"

function digits_of :: "nat \<Rightarrow> string" where
  "digits_of n = (if n < 10 then [digit_char n] else digits_of (n div 10) @ [digit_char (n mod 10)])"
  by pat_completeness auto
termination
  by (relation "measure (\<lambda>n. n)") auto

declare digits_of.simps [simp del]

definition round_half_even :: "real \<Rightarrow> int" where
  "round_half_even x =
     (let f = \<lfloor>x\<rfloor>; d = x - of_int f
      in if d < 1 / 2 then f else if 1 / 2 < d then f + 1 else if even f then f else f + 1)"

definition fmt2f :: "real \<Rightarrow> string" where
  "fmt2f x =
     (let h = nat (round_half_even (\<bar>x\<bar> * 100))
      in (if x < 0 then ''-'' else []) @ digits_of (h div 100) @ ''.''
         @ [digit_char (h div 10), digit_char h])"

section \<open>The run\<close>

text \<open>
  Everything outside the program that a run depends on: the pandas parsers, whether the
  connection can be opened (and then what the table holds), which parameters the sink
  rejects, whether the commit of a chunk (by its number) fails, what the two reads of the
  extract give, and the two readings of the clock.
\<close>

datatype read = Chunk dataframe | ReadError string

record world =
  library :: pandas
  connect_result :: "string + table"
  rejects :: "service_request \<Rightarrow> string option"
  commit_error :: "nat \<Rightarrow> string option"
  sample :: "string + dataframe"
  reads :: "read list"
  start_time :: real
  end_time :: real

record state =
  total_rows :: nat
  chunk_num :: nat
  error_count :: nat
  out :: "line list"
  conn :: connection

definition print :: "line \<Rightarrow> state \<Rightarrow> state" where
  "print l s = s\<lparr>out := out s @ [l]\<rparr>"

text \<open>
  \<^verbatim>\<open>
  for _, row in chunk.iterrows():
      try:
          cursor.execute("""REPLACE INTO service_requests ...""", (...))
      except Exception as e:
          error_count += 1
          if error_count <= 10:  # Only print first 10 errors
              print(f"Error inserting row {safe_value(row.get('Unique Key'))}: {e}")
          continue
  \<close>
\<close>

fun write_rows :: "(service_request \<Rightarrow> string option) \<Rightarrow> series list \<Rightarrow> state \<Rightarrow> state" where
  "write_rows rej [] s = s"
| "write_rows rej (row # rest) s =
     (case execute rej (bind_params row) (conn s) of
        Inr c \<Rightarrow> write_rows rej rest (s\<lparr>conn := c\<rparr>)
      | Inl e \<Rightarrow>
          (let s1 = s\<lparr>error_count := error_count s + 1\<rparr>;
               s2 = (if error_count s1 \<le> 10
                     then print (ErrorInserting (safe_value (row_get row ''Unique Key'' PyNone)) e) s1
                     else s1)
           in write_rows rej rest s2))"

text \<open>
  \<^verbatim>\<open>
  for chunk in pd.read_csv(CSV_FILE, chunksize=CHUNK_SIZE):
      chunk_num += 1
      print(f"Processing chunk {chunk_num} ({len(chunk)} rows)...")
      chunk = clean_data(chunk)
      for _, row in chunk.iterrows(): ...
      conn.commit()
      total_rows += len(chunk)
      print(f"  Inserted {len(chunk)} rows (Total: {total_rows})")
  \<close>
  \<open>process_chunk\<close> is the body of the loop, \<open>run_chunks\<close> the loop over what the reader
  delivers. The result is the exception that left the loop, if any, and the state reached.
\<close>

definition process_chunk :: "world \<Rightarrow> dataframe \<Rightarrow> state \<Rightarrow> string option \<times> state" where
  "process_chunk w chunk s =
     (let s1 = s\<lparr>chunk_num := chunk_num s + 1\<rparr>;
          s2 = print (ProcessingChunk (chunk_num s1) (len_df chunk)) s1;
          cleaned = clean_data (library w) chunk;
          s3 = write_rows (rejects w) (df_rows cleaned) s2
      in case commit_error w (chunk_num s3) of
           Some e \<Rightarrow> (Some e, s3)
         | None \<Rightarrow>
             (let s4 = s3\<lparr>conn := commit (conn s3)\<rparr>;
                  s5 = s4\<lparr>total_rows := total_rows s4 + len_df cleaned\<rparr>;
                  s6 = print (Inserted (len_df cleaned) (total_rows s5)) s5
              in (None, s6)))"

fun run_chunks :: "world \<Rightarrow> read list \<Rightarrow> state \<Rightarrow> string option \<times> state" where
  "run_chunks w [] s = (None, s)"
| "run_chunks w (ReadError e # rest) s = (Some e, s)"
| "run_chunks w (Chunk chunk # rest) s =
     (case process_chunk w chunk s of
        (Some e, s') \<Rightarrow> (Some e, s')
      | (None, s') \<Rightarrow> run_chunks w rest s')"

text \<open>
  \<^verbatim>\<open>
  duration = end_time - start_time
  rows_per_sec = total_rows / duration if duration > 0 else 0
  \<close>
\<close>

definition rows_per_sec :: "nat \<Rightarrow> real \<Rightarrow> real" where
  "rows_per_sec n duration = (if duration > 0 then real n / duration else 0)"

definition report :: "world \<Rightarrow> state \<Rightarrow> state" where
  "report w s =
     (let duration = end_time w - start_time w;
          speed = rows_per_sec (total_rows s) duration
      in (print Rule \<circ> print (Speed (fmt2f speed)) \<circ> print (Duration (fmt2f duration))
          \<circ> print (ErrorsEncountered (error_count s)) \<circ> print (TotalRows (total_rows s))
          \<circ> print StatsTitle \<circ> print Rule \<circ> print Blank) s)"

text \<open>The body of the \<^verbatim>\<open>try\<close>: the sample read, the loop, the statistics.\<close>

definition try_body :: "world \<Rightarrow> state \<Rightarrow> string option \<times> state" where
  "try_body w s =
     (case sample w of
        Inl e \<Rightarrow> (Some e, s)
      | Inr sample_df \<Rightarrow>
          (let s1 = print Blank (print (CsvColumns (df_columns sample_df)) s)
           in case run_chunks w (reads w) s1 of
                (Some e, s2) \<Rightarrow> (Some e, s2)
              | (None, s2) \<Rightarrow> (None, report w s2)))"

text \<open>
  \<^verbatim>\<open>
  except Exception as e:
      print(f"Error during ETL: {e}")
      traceback.print_exc()
      conn.rollback()
  finally:
      cursor.close()
      conn.close()
  \<close>
\<close>

definition handler :: "string \<Rightarrow> state \<Rightarrow> state" where
  "handler e s =
     (let s1 = print (Traceback e) (print (ErrorDuringETL e) s)
      in s1\<lparr>conn := rollback (conn s1)\<rparr>)"

definition finally_clause :: "state \<Rightarrow> state" where
  "finally_clause s = s\<lparr>conn := close_all (conn s)\<rparr>"

text \<open>
  \<^verbatim>\<open>main\<close>. The connection is opened before the \<^verbatim>\<open>try\<close>: when that fails the exception
  leaves \<^verbatim>\<open>main\<close> (\<open>Propagated\<close>) and there is nothing to roll back or to close.
\<close>

datatype exit = Propagated string "line list" | Returned state

text \<open>
  The state when the \<^verbatim>\<open>try\<close> is entered: the counters at 0, the first line printed, the
  connection and its cursor open on the table \<open>tbl\<close> with nothing pending.
\<close>

definition initial_state :: "table \<Rightarrow> state" where
  "initial_state tbl =
     \<lparr>total_rows = 0, chunk_num = 0, error_count = 0, out = [Starting],
      conn = \<lparr>committed = tbl, pending = tbl, cursor_open = True, conn_open = True\<rparr>\<rparr>"

definition main :: "world \<Rightarrow> exit" where
  "main w =
     (case connect_result w of
        Inl e \<Rightarrow> Propagated e [Starting]
      | Inr tbl \<Rightarrow>
          (case try_body w (initial_state tbl) of
             (None, s1) \<Rightarrow> Returned (finally_clause s1)
           | (Some e, s1) \<Rightarrow> Returned (finally_clause (handler e s1))))"

section \<open>Notions used to state the properties\<close>

text \<open>
  What the cleaning step does to the cell under label \<open>k\<close> of a chunk with the column
  index \<open>cols\<close>; \<open>clean_data_relabel\<close> below proves that \<open>clean_data\<close> is this function
  applied to every cell.
\<close>

definition clean_cell :: "pandas \<Rightarrow> string list \<Rightarrow> string \<Rightarrow> cell \<Rightarrow> cell" where
  "clean_cell lib cols k c =
     replace_nan lib
       (if k \<in> set cols then
          (if k = ''Borough'' then clean_borough c
           else if k = ''Created Date'' \<or> k = ''Closed Date'' then to_datetime lib c
           else if k = ''Latitude'' \<or> k = ''Longitude'' then to_numeric lib c
           else c)
        else c)"

definition relabel :: "(string \<Rightarrow> cell \<Rightarrow> cell) \<Rightarrow> dataframe \<Rightarrow> dataframe" where
  "relabel g df = df\<lparr>df_rows := map (map (\<lambda>(k, c). (k, g k c))) (df_rows df)\<rparr>"

text \<open>A value the write step can bind as it is: a present value, or the one \<^verbatim>\<open>None\<close>.\<close>

definition canonical :: "cell \<Rightarrow> bool" where
  "canonical c = (c = PyNone \<or> \<not> isna c)"

fun is_ts :: "cell \<Rightarrow> bool" where
  "is_ts (Ts t) = True"
| "is_ts _ = False"

fun is_num :: "cell \<Rightarrow> bool" where
  "is_num (Num x) = True"
| "is_num _ = False"

text \<open>
  What "valid-typed or canonical NULL" means for the cell \<open>c\<close> under label \<open>k\<close> of a
  cleaned chunk with the column index \<open>cols\<close>: never \<^verbatim>\<open>NaN\<close>; a timestamp or a null in
  the two date columns; a number or \<^verbatim>\<open>None\<close> in the two coordinate columns; present and
  not empty in the Borough column; and \<^verbatim>\<open>None\<close> as the only null of the chunk when
  \<^verbatim>\<open>replace\<close> rewrites \<^verbatim>\<open>NaT\<close> too.
\<close>

definition cleaned_ok :: "pandas \<Rightarrow> string list \<Rightarrow> string \<Rightarrow> cell \<Rightarrow> bool" where
  "cleaned_ok lib cols k c =
     (c \<noteq> NaN \<and>
      (nan_matches_nat lib \<longrightarrow> canonical c) \<and>
      (k \<in> set cols \<and> (k = ''Created Date'' \<or> k = ''Closed Date'') \<longrightarrow>
         is_ts c \<or> c = PyNone \<or> (c = NaT \<and> \<not> nan_matches_nat lib)) \<and>
      (k \<in> set cols \<and> (k = ''Latitude'' \<or> k = ''Longitude'') \<longrightarrow> is_num c \<or> c = PyNone) \<and>
      (k \<in> set cols \<and> k = ''Borough'' \<longrightarrow> \<not> isna c \<and> c \<noteq> Str ''''))"

text \<open>The sink accepts the parameters of a row; a table after a list of replaces.\<close>

definition accepted :: "(service_request \<Rightarrow> string option) \<Rightarrow> series \<Rightarrow> bool" where
  "accepted rej row = (rej (bind_params row) = None)"

definition replace_all :: "table \<Rightarrow> service_request list \<Rightarrow> table" where
  "replace_all tbl ps = foldl (\<lambda>t p. replace_into p t) tbl ps"

text \<open>The number of per-row error messages printed so far.\<close>

definition row_errors :: "state \<Rightarrow> nat" where
  "row_errors s = length (filter is_row_error (out s))"

text \<open>The state after the sample read has printed the column names and a blank line.\<close>

definition after_sample :: "dataframe \<Rightarrow> table \<Rightarrow> state" where
  "after_sample sample_df tbl =
     print Blank (print (CsvColumns (df_columns sample_df)) (initial_state tbl))"



section \<open>A small extract\<close>

text \<open>
  The three-row scenario of the spec, as \<^verbatim>\<open>read_csv\<close> delivers it (an empty field is
  \<^verbatim>\<open>NaN\<close>): key 1 arrives twice, the second time with another borough; row 2 has no
  borough, no descriptor and a latitude that is not a number. The parsers know exactly
  the texts that occur.
\<close>

definition demo_lib :: pandas where
  "demo_lib =
     \<lparr>datetime_of_str = map_of [(''2025-01-05'', 1736035200000000000),
                                (''2025-01-06'', 1736121600000000000),
                                (''2025-01-07'', 1736208000000000000)],
      datetime_of_num = (\<lambda>x. Some \<lfloor>x\<rfloor>),
      numeric_of_str = map_of [(''40.8'', 408 / 10), (''-73.9'', - 739 / 10)],
      nan_matches_nat = True\<rparr>"

definition demo_columns :: "string list" where
  "demo_columns =
     [''Unique Key'', ''Created Date'', ''Closed Date'', ''Agency'', ''Complaint Type'',
      ''Descriptor'', ''Borough'', ''Latitude'', ''Longitude'']"

definition demo_row1 :: series where
  "demo_row1 = zip demo_columns
     [Num 1, Str ''2025-01-05'', NaN, Str ''DOT'', Str ''Noise'', Str ''Loud'',
      Str ''BRONX'', Str ''40.8'', Str ''-73.9'']"

definition demo_row2 :: series where
  "demo_row2 = zip demo_columns
     [Num 2, Str ''2025-01-06'', Str ''2025-01-07'', Str ''NYPD'', Str ''Theft'', NaN,
      NaN, Str ''bad'', NaN]"

definition demo_row3 :: series where
  "demo_row3 = zip demo_columns
     [Num 1, Str ''2025-01-05'', NaN, Str ''DOT'', Str ''Noise'', Str ''Loud'',
      Str ''QUEENS'', Str ''40.8'', Str ''-73.9'']"

definition demo_chunk :: dataframe where
  "demo_chunk = \<lparr>df_columns = demo_columns, df_rows = [demo_row1, demo_row2, demo_row3]\<rparr>"

text \<open>The parameters the three rows are bound to after cleaning.\<close>

definition demo_params1 :: service_request where
  "demo_params1 =
     \<lparr>unique_key = Num 1, created_date = Ts 1736035200000000000, closed_date = PyNone,
      agency = Str ''DOT'', complaint_type = Str ''Noise'', descriptor = Str ''Loud'',
      borough = Str ''BRONX'', latitude = Num (408 / 10), longitude = Num (- 739 / 10)\<rparr>"

definition demo_params2 :: service_request where
  "demo_params2 =
     \<lparr>unique_key = Num 2, created_date = Ts 1736121600000000000,
      closed_date = Ts 1736208000000000000,
      agency = Str ''NYPD'', complaint_type = Str ''Theft'', descriptor = PyNone,
      borough = Str ''UNKNOWN'', latitude = PyNone, longitude = PyNone\<rparr>"

definition demo_params3 :: service_request where
  "demo_params3 = demo_params1\<lparr>borough := Str ''QUEENS''\<rparr>"

text \<open>A chunk whose only borough is three blanks, and one with no Borough column.\<close>

definition blank_chunk :: dataframe where
  "blank_chunk =
     \<lparr>df_columns = [''Unique Key'', ''Borough''],
      df_rows = [[(''Unique Key'', Num 7), (''Borough'', Str ''   '')]]\<rparr>"

definition bare_chunk :: dataframe where
  "bare_chunk =
     \<lparr>df_columns = [''Unique Key'', ''Agency''],
      df_rows = [[(''Unique Key'', Num 8), (''Agency'', NaN)]]\<rparr>"

text \<open>
  A run over the extract in one chunk, on an empty table, taking ten seconds, in which
  the sink rejects key 2; and the same run when the read after the first chunk fails.
\<close>

definition demo_world :: world where
  "demo_world =
     \<lparr>library = demo_lib,
      connect_result = Inr [],
      rejects = (\<lambda>p. if unique_key p = Num 2 then Some ''rejected'' else None),
      commit_error = (\<lambda>n. None),
      sample = Inr (demo_chunk\<lparr>df_rows := [demo_row1]\<rparr>),
      reads = [Chunk demo_chunk],
      start_time = 100,
      end_time = 110\<rparr>"


section \<open>Properties of the cleaning step\<close>

subsection \<open>Cleaning works cell by cell\<close>

lemma map_of_relabel:
  "map_of (map (\<lambda>(k, c). (k, f k c)) r) key = map_option (f key) (map_of r key)"
  by (induction r) auto

lemma assign_col_relabel: "assign_col name f = relabel (\<lambda>k c. if k = name then f c else c)"
  by (simp add: assign_col_def relabel_def fun_eq_iff)

lemma map_cells_relabel: "map_cells f = relabel (\<lambda>k. f)"
  by (simp add: map_cells_def relabel_def fun_eq_iff)

lemma relabel_columns: "df_columns (relabel g df) = df_columns df"
  by (simp add: relabel_def)

lemma relabel_if: "(if P then relabel g df else df) = relabel (\<lambda>k c. if P then g k c else c) df"
  by (simp add: relabel_def)

lemma relabel_relabel: "relabel g (relabel h df) = relabel (\<lambda>k c. g k (h k c)) df"
  by (simp add: relabel_def comp_def case_prod_beta)

lemma relabel_cong: "(\<And>k c. g k c = h k c) \<Longrightarrow> relabel g df = relabel h df"
  by (simp add: relabel_def)

lemma clean_data_relabel:
  "clean_data lib df = relabel (clean_cell lib (df_columns df)) df"
  unfolding clean_data_def Let_def assign_col_relabel map_cells_relabel relabel_if
    relabel_relabel relabel_columns
  by (rule relabel_cong) (simp add: clean_cell_def)

lemma clean_data_columns: "df_columns (clean_data lib df) = df_columns df"
  by (simp add: clean_data_relabel relabel_columns)

lemma clean_data_len: "len_df (clean_data lib df) = len_df df"
  by (simp add: clean_data_relabel relabel_def len_df_def)

lemma clean_data_labels:
  "map (map fst) (df_rows (clean_data lib df)) = map (map fst) (df_rows df)"
  by (simp add: clean_data_relabel relabel_def comp_def case_prod_beta)

lemma cell_at_clean:
  "cell_at (clean_data lib df) i k = map_option (clean_cell lib (df_columns df) k) (cell_at df i k)"
  by (simp add: cell_at_def len_df_def clean_data_relabel relabel_def map_of_relabel)

lemma row_get_clean:
  "row_get (map (\<lambda>(k, c). (k, clean_cell lib cols k c)) r) key d =
     (case map_of r key of None \<Rightarrow> d | Some c \<Rightarrow> clean_cell lib cols key c)"
  by (simp add: row_get_def map_of_relabel split: option.splits)

lemma clean_cell_borough:
  "clean_cell lib cols ''Borough'' c =
     (if ''Borough'' \<in> set cols then (if isna c \<or> c = Str '''' then Str ''UNKNOWN'' else c)
      else replace_nan lib c)"
  by (cases c) (simp_all add: clean_cell_def clean_borough_def fillna_def replace_val_def replace_nan_def)

lemma clean_cell_not_nan: "clean_cell lib cols k c \<noteq> NaN"
  by (simp add: clean_cell_def replace_nan_def)

lemma clean_cell_canonical: "nan_matches_nat lib \<Longrightarrow> canonical (clean_cell lib cols k c)"
  by (cases "clean_cell lib cols k c") (auto simp: clean_cell_def replace_nan_def canonical_def split: if_splits)

lemma to_datetime_cases: "is_ts (to_datetime lib c) \<or> to_datetime lib c = NaT"
  by (cases c) (simp_all split: option.splits)

lemma to_numeric_cases: "is_num (to_numeric lib c) \<or> to_numeric lib c = NaN"
  by (cases c) (simp_all split: option.splits)

lemma clean_cell_date:
  "k \<in> set cols \<Longrightarrow> k = ''Created Date'' \<or> k = ''Closed Date'' \<Longrightarrow>
   clean_cell lib cols k c = replace_nan lib (to_datetime lib c)"
  by (auto simp: clean_cell_def)

lemma clean_cell_coord:
  "k \<in> set cols \<Longrightarrow> k = ''Latitude'' \<or> k = ''Longitude'' \<Longrightarrow>
   clean_cell lib cols k c = replace_nan lib (to_numeric lib c)"
  by (auto simp: clean_cell_def)

text \<open>
  C10. \<open>safe_value\<close> returns \<^verbatim>\<open>None\<close> exactly on the missing-value markers (the ones
  \<^verbatim>\<open>pd.isna\<close> recognises: \<^verbatim>\<open>NaN\<close>, \<^verbatim>\<open>NaT\<close> and \<^verbatim>\<open>None\<close> itself) and returns every
  other value unchanged; so each of the nine parameters bound into the statement is a
  present value or the one \<^verbatim>\<open>None\<close>, whatever the row holds and whether or not cleaning
  touched the column.
\<close>

theorem safe_value_canonical:
  "(safe_value v = PyNone \<longleftrightarrow> isna v) \<and> (\<not> isna v \<longrightarrow> safe_value v = v) \<and>
   list_all canonical (params_list (bind_params row))"
proof -
  have a: "(safe_value v = PyNone \<longleftrightarrow> isna v) \<and> (\<not> isna v \<longrightarrow> safe_value v = v)" for v
    by (cases v) (simp_all add: safe_value_def)
  have b: "canonical (safe_value v)" for v
    by (cases v) (simp_all add: safe_value_def canonical_def)
  show ?thesis
    using a by (simp add: params_list_def bind_params_def b)
qed

text \<open>On \<^verbatim>\<open>NaT\<close>, on a string, and on the second row of the extract as read.\<close>

theorem safe_value_canonical_witness:
  "safe_value NaT = PyNone \<and> safe_value (Str ''DOT'') = Str ''DOT'' \<and>
   list_all canonical (params_list (bind_params demo_row2))"
  using safe_value_canonical [of NaT demo_row2] safe_value_canonical [of "Str ''DOT''" demo_row2]
  by simp

text \<open>
  C4, as the code has it. In a chunk that has a Borough column, a Borough value that is
  missing or the empty string is cleaned to \<^verbatim>\<open>"UNKNOWN"\<close>, and every other value stays as
  it is: \<^verbatim>\<open>replace('', 'UNKNOWN')\<close> matches the empty string only, and nothing strips
  blanks.
\<close>

theorem borough_cleaned:
  assumes "''Borough'' \<in> set (df_columns df)" and "cell_at df i ''Borough'' = Some c"
  shows "cell_at (clean_data lib df) i ''Borough'' =
           Some (if isna c \<or> c = Str '''' then Str ''UNKNOWN'' else c)"
  using assms by (simp add: cell_at_clean clean_cell_borough)

text \<open>The missing borough of row 2 and the borough of row 1 of the extract.\<close>

theorem borough_cleaned_witness:
  "cell_at (clean_data demo_lib demo_chunk) 1 ''Borough'' = Some (Str ''UNKNOWN'') \<and>
   cell_at (clean_data demo_lib demo_chunk) 0 ''Borough'' = Some (Str ''BRONX'')"
proof -
  have c: "''Borough'' \<in> set (df_columns demo_chunk)"
    by (simp add: demo_chunk_def demo_columns_def)
  have r1: "cell_at demo_chunk 1 ''Borough'' = Some NaN"
    by (simp add: cell_at_def len_df_def demo_chunk_def demo_row2_def demo_columns_def)
  have r0: "cell_at demo_chunk 0 ''Borough'' = Some (Str ''BRONX'')"
    by (simp add: cell_at_def len_df_def demo_chunk_def demo_row1_def demo_columns_def)
  show ?thesis
    using borough_cleaned [OF c r1, of demo_lib] borough_cleaned [OF c r0, of demo_lib]
    by simp
qed

text \<open>
  C4 as stated fails on a borough of blanks only: it is neither missing nor the empty
  string, and comes out of the cleaning as it went in.
\<close>

theorem borough_whitespace_counterexample:
  "cell_at blank_chunk 0 ''Borough'' = Some (Str ''   '') \<and>
   cell_at (clean_data demo_lib blank_chunk) 0 ''Borough'' = Some (Str ''   '') \<and>
   Str ''   '' \<noteq> Str ''UNKNOWN''"
  by (simp add: cell_at_def len_df_def blank_chunk_def clean_data_def assign_col_def
      map_cells_def clean_borough_def fillna_def replace_val_def replace_nan_def)



lemma clean_cell_ok: "cleaned_ok lib cols k (clean_cell lib cols k c0)"
proof -
  have d: "k \<in> set cols \<and> (k = ''Created Date'' \<or> k = ''Closed Date'') \<longrightarrow>
       is_ts (clean_cell lib cols k c0) \<or> clean_cell lib cols k c0 = PyNone \<or>
       (clean_cell lib cols k c0 = NaT \<and> \<not> nan_matches_nat lib)"
    using to_datetime_cases [of lib c0]
    by (cases "to_datetime lib c0") (auto simp: clean_cell_date replace_nan_def)
  have e: "k \<in> set cols \<and> (k = ''Latitude'' \<or> k = ''Longitude'') \<longrightarrow>
       is_num (clean_cell lib cols k c0) \<or> clean_cell lib cols k c0 = PyNone"
    using to_numeric_cases [of lib c0]
    by (cases "to_numeric lib c0") (auto simp: clean_cell_coord replace_nan_def)
  have f: "k \<in> set cols \<and> k = ''Borough'' \<longrightarrow>
       \<not> isna (clean_cell lib cols k c0) \<and> clean_cell lib cols k c0 \<noteq> Str ''''"
    by (cases c0) (auto simp: clean_cell_borough)
  show ?thesis
    unfolding cleaned_ok_def
    by (intro conjI) (rule clean_cell_not_nan, simp add: clean_cell_canonical, rule d, rule e, rule f)
qed

text \<open>
  C6. Cleaning returns a chunk with the same number of rows, the same column index and
  the same labels in every row, and every cell of it is valid-typed or null in the sense
  of \<open>cleaned_ok\<close>.
\<close>

theorem clean_data_shape:
  "len_df (clean_data lib df) = len_df df \<and>
   df_columns (clean_data lib df) = df_columns df \<and>
   map (map fst) (df_rows (clean_data lib df)) = map (map fst) (df_rows df) \<and>
   (\<forall>r \<in> set (df_rows (clean_data lib df)). \<forall>(k, c) \<in> set r.
      cleaned_ok lib (df_columns (clean_data lib df)) k c)"
proof -
  have "\<forall>r \<in> set (df_rows (clean_data lib df)). \<forall>(k, c) \<in> set r.
      cleaned_ok lib (df_columns (clean_data lib df)) k c"
  proof (intro ballI, clarify)
    fix r k c
    assume "r \<in> set (df_rows (clean_data lib df))" and "(k, c) \<in> set r"
    then obtain c0 where "c = clean_cell lib (df_columns df) k c0"
      by (auto simp: clean_data_relabel relabel_def)
    then show "cleaned_ok lib (df_columns (clean_data lib df)) k c"
      by (simp add: clean_cell_ok clean_data_columns)
  qed
  then show ?thesis
    by (intro conjI) (rule clean_data_len, rule clean_data_columns, rule clean_data_labels)
qed

lemma demo_cleaned:
  "df_rows (clean_data demo_lib demo_chunk) =
     [[(''Unique Key'', Num 1), (''Created Date'', Ts 1736035200000000000),
       (''Closed Date'', PyNone), (''Agency'', Str ''DOT''),
       (''Complaint Type'', Str ''Noise''), (''Descriptor'', Str ''Loud''),
       (''Borough'', Str ''BRONX''), (''Latitude'', Num (408 / 10)),
       (''Longitude'', Num (- 739 / 10))],
      [(''Unique Key'', Num 2), (''Created Date'', Ts 1736121600000000000),
       (''Closed Date'', Ts 1736208000000000000),
       (''Agency'', Str ''NYPD''), (''Complaint Type'', Str ''Theft''),
       (''Descriptor'', PyNone), (''Borough'', Str ''UNKNOWN''),
       (''Latitude'', PyNone), (''Longitude'', PyNone)],
      [(''Unique Key'', Num 1), (''Created Date'', Ts 1736035200000000000),
       (''Closed Date'', PyNone), (''Agency'', Str ''DOT''),
       (''Complaint Type'', Str ''Noise''), (''Descriptor'', Str ''Loud''),
       (''Borough'', Str ''QUEENS''), (''Latitude'', Num (408 / 10)),
       (''Longitude'', Num (- 739 / 10))]]"
  by (simp add: clean_data_relabel relabel_def demo_chunk_def demo_row1_def demo_row2_def
      demo_row3_def demo_columns_def clean_cell_def clean_borough_def fillna_def
      replace_val_def replace_nan_def demo_lib_def)

text \<open>
  The extract keeps its three rows and nine columns; the latitude of row 2 (not a number,
  cleaned to \<^verbatim>\<open>None\<close>) and its borough (missing, cleaned to \<^verbatim>\<open>"UNKNOWN"\<close>) are cells of
  the cleaned chunk.
\<close>

theorem clean_data_shape_witness:
  "len_df (clean_data demo_lib demo_chunk) = 3 \<and>
   df_columns (clean_data demo_lib demo_chunk) = demo_columns \<and>
   cleaned_ok demo_lib demo_columns ''Latitude'' PyNone \<and>
   cleaned_ok demo_lib demo_columns ''Borough'' (Str ''UNKNOWN'')"
proof -
  have n: "len_df demo_chunk = 3" and c: "df_columns demo_chunk = demo_columns"
    by (simp_all add: len_df_def demo_chunk_def)
  have s: "len_df (clean_data demo_lib demo_chunk) = 3 \<and>
      df_columns (clean_data demo_lib demo_chunk) = demo_columns"
    using clean_data_shape [of demo_lib demo_chunk] n c by simp
  have "\<forall>r \<in> set (df_rows (clean_data demo_lib demo_chunk)). \<forall>(k, c) \<in> set r.
      cleaned_ok demo_lib demo_columns k c"
    using clean_data_shape [of demo_lib demo_chunk] s by simp
  then have "cleaned_ok demo_lib demo_columns ''Latitude'' PyNone \<and>
      cleaned_ok demo_lib demo_columns ''Borough'' (Str ''UNKNOWN'')"
    unfolding demo_cleaned by simp
  with s show ?thesis by simp
qed

lemma map_of_absent: "k \<notin> set (map fst r) \<Longrightarrow> map_of r k = None"
  by (simp add: map_of_eq_None_iff)

text \<open>
  C3. For every row of a chunk as \<^verbatim>\<open>read_csv\<close> delivers it, the borough bound into the
  statement after cleaning is neither a null nor the empty string: with a Borough column
  it is the cleaned cell (\<^verbatim>\<open>"UNKNOWN"\<close> for a missing or empty value), without one the
  write step binds the default \<^verbatim>\<open>"UNKNOWN"\<close> of \<^verbatim>\<open>row.get\<close>.
\<close>

theorem borough_bound_never_null:
  assumes "wf_df df" and "i < len_df df"
  shows "\<not> isna (borough (bind_params (df_rows (clean_data lib df) ! i))) \<and>
         borough (bind_params (df_rows (clean_data lib df) ! i)) \<noteq> Str '''' \<and>
         (''Borough'' \<notin> set (df_columns df) \<longrightarrow>
            borough (bind_params (df_rows (clean_data lib df) ! i)) = Str ''UNKNOWN'') \<and>
         (''Borough'' \<in> set (df_columns df) \<longrightarrow>
            (\<exists>c. cell_at df i ''Borough'' = Some c \<and>
                 borough (bind_params (df_rows (clean_data lib df) ! i)) =
                   (if isna c \<or> c = Str '''' then Str ''UNKNOWN'' else c)))"
proof -
  let ?r = "df_rows df ! i"
  have lab: "map fst ?r = df_columns df"
    using assms by (simp add: wf_df_def list_all_length len_df_def)
  have row: "df_rows (clean_data lib df) ! i =
      map (\<lambda>(k, c). (k, clean_cell lib (df_columns df) k c)) ?r"
    using assms(2) by (simp add: clean_data_relabel relabel_def len_df_def)
  have b: "borough (bind_params (df_rows (clean_data lib df) ! i)) =
      safe_value (case map_of ?r ''Borough'' of None \<Rightarrow> Str ''UNKNOWN''
                  | Some c \<Rightarrow> clean_cell lib (df_columns df) ''Borough'' c)"
    by (simp add: bind_params_def row row_get_clean)
  show ?thesis
  proof (cases "''Borough'' \<in> set (df_columns df)")
    case False
    then have "map_of ?r ''Borough'' = None"
      using lab map_of_absent by metis
    then show ?thesis using False b by (simp add: safe_value_def)
  next
    case True
    then obtain c where c: "map_of ?r ''Borough'' = Some c"
      using lab by (metis map_of_eq_None_iff not_Some_eq set_map)
    have "cell_at df i ''Borough'' = Some c"
      using c assms(2) by (simp add: cell_at_def)
    then show ?thesis
      using True b c by (cases c) (auto simp: clean_cell_borough safe_value_def)
  qed
qed

text \<open>
  A chunk with no Borough column, and rows 2 (missing borough) and 1 of the extract.
\<close>

theorem borough_bound_never_null_witness:
  "borough (bind_params (df_rows (clean_data demo_lib bare_chunk) ! 0)) = Str ''UNKNOWN'' \<and>
   borough (bind_params (df_rows (clean_data demo_lib demo_chunk) ! 1)) = Str ''UNKNOWN'' \<and>
   \<not> isna (borough (bind_params (df_rows (clean_data demo_lib demo_chunk) ! 0)))"
proof -
  have w1: "wf_df bare_chunk" and n1: "0 < len_df bare_chunk"
    and a1: "''Borough'' \<notin> set (df_columns bare_chunk)"
    by (simp_all add: wf_df_def len_df_def bare_chunk_def)
  have w2: "wf_df demo_chunk" and n2: "1 < len_df demo_chunk" and n3: "0 < len_df demo_chunk"
    and a2: "''Borough'' \<in> set (df_columns demo_chunk)"
    by (simp_all add: wf_df_def len_df_def demo_chunk_def demo_row1_def demo_row2_def
        demo_row3_def demo_columns_def)
  have c2: "cell_at demo_chunk 1 ''Borough'' = Some NaN"
    by (simp add: cell_at_def len_df_def demo_chunk_def demo_row2_def demo_columns_def)
  have x: "borough (bind_params (df_rows (clean_data demo_lib bare_chunk) ! 0)) = Str ''UNKNOWN''"
    using borough_bound_never_null [OF w1 n1, of demo_lib] a1 by simp
  have y: "borough (bind_params (df_rows (clean_data demo_lib demo_chunk) ! 1)) = Str ''UNKNOWN''"
    using borough_bound_never_null [OF w2 n2, of demo_lib] a2 c2 by auto
  have z: "\<not> isna (borough (bind_params (df_rows (clean_data demo_lib demo_chunk) ! 0)))"
    using borough_bound_never_null [OF w2 n3, of demo_lib] by simp
  show ?thesis
    by (intro conjI) (rule x, rule y, rule z)
qed

subsection \<open>The loop over the rows of a chunk\<close>

lemma write_rows_append:
  "write_rows rej (xs @ ys) s = write_rows rej ys (write_rows rej xs s)"
  by (induction xs arbitrary: s) (simp_all add: Let_def split: sum.splits)

lemma write_rows_frame:
  "total_rows (write_rows rej rows s) = total_rows s \<and>
   chunk_num (write_rows rej rows s) = chunk_num s \<and>
   committed (conn (write_rows rej rows s)) = committed (conn s) \<and>
   cursor_open (conn (write_rows rej rows s)) = cursor_open (conn s) \<and>
   conn_open (conn (write_rows rej rows s)) = conn_open (conn s)"
  by (induction rows arbitrary: s)
     (auto simp: execute_def print_def Let_def split: option.splits)

lemma write_rows_error_count:
  "error_count (write_rows rej rows s) =
     error_count s + length (filter (\<lambda>r. \<not> accepted rej r) rows)"
  by (induction rows arbitrary: s)
     (auto simp: execute_def print_def Let_def accepted_def split: option.splits)

lemma write_rows_pending:
  "pending (conn (write_rows rej rows s)) =
     replace_all (pending (conn s)) (map bind_params (filter (accepted rej) rows))"
  by (induction rows arbitrary: s)
     (auto simp: execute_def print_def Let_def accepted_def replace_all_def split: option.splits)

lemma write_rows_row_errors:
  "row_errors s = min 10 (error_count s) \<Longrightarrow>
   row_errors (write_rows rej rows s) = min 10 (error_count (write_rows rej rows s))"
  by (induction rows arbitrary: s)
     (auto simp: execute_def print_def Let_def row_errors_def split: option.splits)

lemma replace_all_snoc: "replace_all t (ps @ [p]) = replace_into p (replace_all t ps)"
  by (simp add: replace_all_def)

lemma replace_all_distinct:
  "distinct (map unique_key ps) \<Longrightarrow>
   filter (\<lambda>r. unique_key r \<in> unique_key ` set ps) (replace_all t ps) = ps"
proof (induction ps rule: rev_induct)
  case Nil
  then show ?case by (simp add: replace_all_def)
next
  case (snoc p ps)
  then have d: "distinct (map unique_key ps)" and n: "unique_key p \<notin> unique_key ` set ps"
    by auto
  have "filter (\<lambda>r. unique_key r \<in> unique_key ` set (ps @ [p]))
          (filter (\<lambda>r. unique_key r \<noteq> unique_key p) (replace_all t ps))
        = filter (\<lambda>r. unique_key r \<in> unique_key ` set ps) (replace_all t ps)"
    using n by (auto intro!: filter_cong)
  then show ?case
    using snoc.IH [OF d] by (simp add: replace_all_snoc replace_into_def)
qed

lemma rows_under_replace_same: "rows_under (unique_key p) (replace_into p t) = [p]"
  by (simp add: rows_under_def replace_into_def filter_empty_conv)

text \<open>
  C1. When two rows with the same key are written one after the other and the sink
  accepts both, exactly one row is stored under that key afterwards, whatever the table
  held before, and it is the nine parameters of the second write as a whole: nothing of
  the first write is merged in.
\<close>

theorem replace_write_twice:
  assumes "unique_key (bind_params r2) = unique_key (bind_params r1)"
    and "accepted rej r1" and "accepted rej r2"
  shows "rows_under (unique_key (bind_params r1)) (pending (conn (write_rows rej [r1, r2] s)))
           = [bind_params r2] \<and>
         error_count (write_rows rej [r1, r2] s) = error_count s"
proof -
  have "pending (conn (write_rows rej [r1, r2] s)) =
      replace_into (bind_params r2) (replace_into (bind_params r1) (pending (conn s)))"
    unfolding write_rows_pending using assms(2,3) by (simp add: replace_all_def)
  moreover have "error_count (write_rows rej [r1, r2] s) = error_count s"
    unfolding write_rows_error_count using assms(2,3) by simp
  ultimately show ?thesis
    using rows_under_replace_same [of "bind_params r2"] assms(1) by simp
qed


subsection \<open>The loop over the chunks\<close>

lemma print_fields:
  "total_rows (print l s) = total_rows s \<and> chunk_num (print l s) = chunk_num s \<and>
   error_count (print l s) = error_count s \<and> conn (print l s) = conn s \<and>
   out (print l s) = out s @ [l]"
  by (simp add: print_def)

text \<open>One pass of the loop body whose commit succeeds, and one whose commit fails.\<close>

lemma process_chunk_commit:
  assumes "commit_error w (chunk_num s + 1) = None"
  shows "\<exists>s'. process_chunk w chunk s = (None, s') \<and>
     total_rows s' = total_rows s + len_df chunk \<and>
     chunk_num s' = chunk_num s + 1 \<and>
     committed (conn s') = pending (conn s') \<and>
     pending (conn s') = replace_all (pending (conn s))
       (map bind_params (filter (accepted (rejects w)) (df_rows (clean_data (library w) chunk)))) \<and>
     error_count s' = error_count s +
       length (filter (\<lambda>r. \<not> accepted (rejects w) r) (df_rows (clean_data (library w) chunk)))"
  using assms
  by (simp add: process_chunk_def Let_def write_rows_frame write_rows_pending
      write_rows_error_count print_fields commit_def clean_data_len)


lemma process_chunk_row_errors:
  assumes "row_errors s = min 10 (error_count s)"
  shows "row_errors (snd (process_chunk w chunk s)) =
     min 10 (error_count (snd (process_chunk w chunk s)))"
proof -
  let ?s2 = "print (ProcessingChunk (chunk_num s + 1) (len_df chunk)) (s\<lparr>chunk_num := chunk_num s + 1\<rparr>)"
  let ?s3 = "write_rows (rejects w) (df_rows (clean_data (library w) chunk)) ?s2"
  have "row_errors ?s2 = min 10 (error_count ?s2)"
    using assms by (simp add: row_errors_def print_def)
  then have "row_errors ?s3 = min 10 (error_count ?s3)"
    by (rule write_rows_row_errors)
  then show ?thesis
    by (simp add: process_chunk_def Let_def row_errors_def print_def split: option.splits)
qed


lemma run_chunks_row_errors:
  "row_errors s = min 10 (error_count s) \<Longrightarrow>
   row_errors (snd (run_chunks w rs s)) = min 10 (error_count (snd (run_chunks w rs s)))"
proof (induction rs arbitrary: s)
  case Nil
  then show ?case by simp
next
  case (Cons x xs)
  show ?case
  proof (cases x)
    case (Chunk c)
    then show ?thesis
      using Cons.IH [of "snd (process_chunk w c s)"] process_chunk_row_errors [OF Cons.prems, of w c]
      by (cases "process_chunk w c s") (auto split: option.splits)
  next
    case (ReadError e)
    then show ?thesis using Cons.prems by simp
  qed
qed

lemma run_chunks_complete:
  assumes "\<forall>n. commit_error w n = None"
  shows "\<exists>s'. run_chunks w (map Chunk cs) s = (None, s') \<and>
     total_rows s' = total_rows s + sum_list (map len_df cs) \<and>
     chunk_num s' = chunk_num s + length cs"
proof (induction cs arbitrary: s)
  case Nil
  then show ?case by simp
next
  case (Cons c cs)
  from assms have "commit_error w (chunk_num s + 1) = None" by simp
  from process_chunk_commit [OF this, of c] obtain s1 where
    s1: "process_chunk w c s = (None, s1)" "total_rows s1 = total_rows s + len_df c"
      "chunk_num s1 = chunk_num s + 1"
    by blast
  from Cons [of s1] obtain s' where
    "run_chunks w (map Chunk cs) s1 = (None, s')"
    "total_rows s' = total_rows s1 + sum_list (map len_df cs)"
    "chunk_num s' = chunk_num s1 + length cs"
    by blast
  then show ?case using s1 by simp
qed

lemma demo_rows_len: "len_df demo_chunk = 3"
  by (simp add: len_df_def demo_chunk_def)

lemma demo_bound_nth:
  "bind_params (df_rows (clean_data demo_lib demo_chunk) ! 0) = demo_params1 \<and>
   bind_params (df_rows (clean_data demo_lib demo_chunk) ! 1) = demo_params2 \<and>
   bind_params (df_rows (clean_data demo_lib demo_chunk) ! 2) = demo_params3"
  unfolding demo_cleaned
  by (simp add: bind_params_def row_get_def safe_value_def demo_params1_def demo_params2_def
      demo_params3_def)

lemma demo_keys:
  "unique_key demo_params1 = Num 1 \<and> unique_key demo_params2 = Num 2 \<and>
   unique_key demo_params3 = Num 1"
  by (simp add: demo_params1_def demo_params2_def demo_params3_def)

text \<open>
  Rows 1 and 3 of the extract (key 1, boroughs BRONX and QUEENS) written onto a table that
  holds key 2: the one row under key 1 is the QUEENS row.
\<close>

theorem replace_write_twice_witness:
  "rows_under (Num 1)
     (pending (conn (write_rows (rejects demo_world)
        [df_rows (clean_data demo_lib demo_chunk) ! 0, df_rows (clean_data demo_lib demo_chunk) ! 2]
        (initial_state [demo_params2])))) = [demo_params3]"
proof -
  let ?r1 = "df_rows (clean_data demo_lib demo_chunk) ! 0"
  let ?r3 = "df_rows (clean_data demo_lib demo_chunk) ! 2"
  have k: "unique_key (bind_params ?r3) = unique_key (bind_params ?r1)"
    by (simp add: demo_bound_nth demo_keys)
  have a1: "accepted (rejects demo_world) ?r1" and a3: "accepted (rejects demo_world) ?r3"
    by (simp_all add: accepted_def demo_bound_nth demo_keys demo_world_def)
  show ?thesis
    using replace_write_twice [OF k a1 a3, of "initial_state [demo_params2]"]
    by (simp add: demo_bound_nth demo_keys)
qed

subsection \<open>The run as a whole\<close>

lemma report_fields:
  "total_rows (report w s) = total_rows s \<and> error_count (report w s) = error_count s \<and>
   conn (report w s) = conn s \<and>
   out (report w s) = out s @
     [Blank, Rule, StatsTitle, TotalRows (total_rows s), ErrorsEncountered (error_count s),
      Duration (fmt2f (end_time w - start_time w)),
      Speed (fmt2f (rows_per_sec (total_rows s) (end_time w - start_time w))), Rule]"
  by (simp add: report_def Let_def print_def)

lemma handler_fields:
  "total_rows (handler e s) = total_rows s \<and> error_count (handler e s) = error_count s \<and>
   conn (handler e s) = rollback (conn s) \<and>
   out (handler e s) = out s @ [ErrorDuringETL e, Traceback e]"
  by (simp add: handler_def Let_def print_def)

lemma finally_fields:
  "total_rows (finally_clause s) = total_rows s \<and> error_count (finally_clause s) = error_count s \<and>
   out (finally_clause s) = out s \<and>
   committed (conn (finally_clause s)) = committed (conn s) \<and>
   pending (conn (finally_clause s)) = pending (conn s) \<and>
   \<not> cursor_open (conn (finally_clause s)) \<and> \<not> conn_open (conn (finally_clause s))"
  by (simp add: finally_clause_def close_all_def)

lemma main_connected:
  "connect_result w = Inr tbl \<Longrightarrow>
   main w = Returned (finally_clause
     (case try_body w (initial_state tbl) of (None, s1) \<Rightarrow> s1 | (Some e, s1) \<Rightarrow> handler e s1))"
  by (simp add: main_def split: prod.splits option.splits)



lemma try_body_sampled:
  "sample w = Inr sample_df \<Longrightarrow>
   try_body w (initial_state tbl) =
     (case run_chunks w (reads w) (after_sample sample_df tbl) of
        (Some e, s2) \<Rightarrow> (Some e, s2) | (None, s2) \<Rightarrow> (None, report w s2))"
  by (simp add: try_body_def after_sample_def Let_def)

lemma after_sample_fields:
  "total_rows (after_sample d tbl) = 0 \<and> chunk_num (after_sample d tbl) = 0 \<and>
   error_count (after_sample d tbl) = 0 \<and> row_errors (after_sample d tbl) = 0 \<and>
   committed (conn (after_sample d tbl)) = tbl \<and> pending (conn (after_sample d tbl)) = tbl"
  by (simp add: after_sample_def initial_state_def print_def row_errors_def)

lemma try_body_row_errors:
  "row_errors (snd (try_body w (initial_state tbl))) =
     min 10 (error_count (snd (try_body w (initial_state tbl))))"
proof (cases "sample w")
  case (Inl e)
  then show ?thesis by (simp add: try_body_def initial_state_def row_errors_def)
next
  case (Inr d)
  have "row_errors (after_sample d tbl) = min 10 (error_count (after_sample d tbl))"
    by (simp add: after_sample_fields)
  from run_chunks_row_errors [OF this, of w "reads w"] show ?thesis
    unfolding try_body_sampled [OF Inr]
    by (cases "run_chunks w (reads w) (after_sample d tbl)")
       (auto simp: row_errors_def report_fields split: option.splits)
qed

lemma main_row_errors:
  assumes "main w = Returned s"
  shows "row_errors s = min 10 (error_count s)"
proof (cases "connect_result w")
  case (Inl e)
  then show ?thesis using assms by (simp add: main_def)
next
  case (Inr tbl)
  show ?thesis
    using assms try_body_row_errors [of w tbl] unfolding main_connected [OF Inr]
    by (cases "try_body w (initial_state tbl)")
       (auto simp: row_errors_def finally_fields handler_fields split: option.splits)
qed

lemma main_normal:
  assumes "connect_result w = Inr tbl" and "sample w = Inr sample_df"
    and "reads w = map Chunk cs" and "\<forall>n. commit_error w n = None"
  shows "\<exists>s2. run_chunks w (reads w) (after_sample sample_df tbl) = (None, s2) \<and>
     total_rows s2 = sum_list (map len_df cs) \<and>
     main w = Returned (finally_clause (report w s2))"
proof -
  from run_chunks_complete [OF assms(4), of cs "after_sample sample_df tbl"]
  obtain s2 where s2: "run_chunks w (map Chunk cs) (after_sample sample_df tbl) = (None, s2)"
    "total_rows s2 = sum_list (map len_df cs)"
    by (auto simp: after_sample_fields)
  then show ?thesis
    by (simp add: main_connected [OF assms(1)] try_body_sampled [OF assms(2)] assms(3))
qed


subsection \<open>The extract, run\<close>



lemma three_rows: "length xs = 3 \<Longrightarrow> xs = [xs ! 0, xs ! 1, xs ! 2]"
  by (auto simp: numeral_3_eq_3 length_Suc_conv)

lemma demo_rows_split:
  "df_rows (clean_data demo_lib demo_chunk) =
     [df_rows (clean_data demo_lib demo_chunk) ! 0] @
     df_rows (clean_data demo_lib demo_chunk) ! 1 #
     [df_rows (clean_data demo_lib demo_chunk) ! 2]"
proof -
  have "length (df_rows (clean_data demo_lib demo_chunk)) = 3"
    using clean_data_len [of demo_lib demo_chunk] demo_rows_len by (simp add: len_df_def)
  from three_rows [OF this] show ?thesis by simp
qed


lemma demo_table: "replace_all [] [demo_params1, demo_params3] = [demo_params3]"
  by (simp add: replace_all_def replace_into_def demo_keys)

subsection \<open>Two decimals\<close>




text \<open>
  C2. In the loop over the rows of a chunk every write that raises adds one to the error
  counter and is skipped, and the loop goes on: the counter grows by the number of
  rejected rows and the table is the one obtained by replacing with the accepted rows
  only, in order. In particular, when exactly one row \<open>rk\<close> of the chunk is rejected, the
  loop continues with the rows after it, that row leaves the table as it was, the counter
  grows by 1 and the writes of the other \<open>N - 1\<close> rows are all applied (when their keys
  are distinct, exactly those \<open>N - 1\<close> rows are stored under the keys of the chunk).
  The number of per-row error messages printed is the smaller of 10 and the error
  counter, during the loop and at the end of every run.
\<close>

theorem per_row_failures:
  "error_count (write_rows rej rows s) =
     error_count s + length (filter (\<lambda>r. \<not> accepted rej r) rows) \<and>
   pending (conn (write_rows rej rows s)) =
     replace_all (pending (conn s)) (map bind_params (filter (accepted rej) rows)) \<and>
   (rows = pre @ rk # post \<and> (\<forall>r \<in> set (pre @ post). accepted rej r) \<and> \<not> accepted rej rk \<longrightarrow>
      write_rows rej rows s = write_rows rej post (write_rows rej (pre @ [rk]) s) \<and>
      pending (conn (write_rows rej (pre @ [rk]) s)) = pending (conn (write_rows rej pre s)) \<and>
      error_count (write_rows rej rows s) = error_count s + 1 \<and>
      pending (conn (write_rows rej rows s)) =
        replace_all (pending (conn s)) (map bind_params (pre @ post)) \<and>
      length (map bind_params (pre @ post)) = length rows - 1 \<and>
      (distinct (map unique_key (map bind_params (pre @ post))) \<longrightarrow>
         filter (\<lambda>p. unique_key p \<in> unique_key ` set (map bind_params (pre @ post)))
           (pending (conn (write_rows rej rows s))) = map bind_params (pre @ post))) \<and>
   (row_errors s = min 10 (error_count s) \<longrightarrow>
      row_errors (write_rows rej rows s) = min 10 (error_count (write_rows rej rows s)) \<and>
      row_errors (write_rows rej rows s) \<le> 10) \<and>
   (\<forall>s'. main w = Returned s' \<longrightarrow> row_errors s' = min 10 (error_count s') \<and> row_errors s' \<le> 10)"
proof -
  have one: "write_rows rej rows s = write_rows rej post (write_rows rej (pre @ [rk]) s) \<and>
      pending (conn (write_rows rej (pre @ [rk]) s)) = pending (conn (write_rows rej pre s)) \<and>
      error_count (write_rows rej rows s) = error_count s + 1 \<and>
      pending (conn (write_rows rej rows s)) =
        replace_all (pending (conn s)) (map bind_params (pre @ post)) \<and>
      length (map bind_params (pre @ post)) = length rows - 1 \<and>
      (distinct (map unique_key (map bind_params (pre @ post))) \<longrightarrow>
         filter (\<lambda>p. unique_key p \<in> unique_key ` set (map bind_params (pre @ post)))
           (pending (conn (write_rows rej rows s))) = map bind_params (pre @ post))"
    if r: "rows = pre @ rk # post" and ok: "\<forall>r \<in> set (pre @ post). accepted rej r"
      and bad: "\<not> accepted rej rk"
  proof -
    have fa: "filter (accepted rej) rows = pre @ post"
      using r ok bad by (simp add: filter_id_conv)
    have fb: "filter (\<lambda>r. \<not> accepted rej r) rows = [rk]"
      using r ok bad by (simp add: filter_empty_conv)
    have fc: "filter (accepted rej) (pre @ [rk]) = filter (accepted rej) pre"
      using bad by simp
    have 1: "write_rows rej rows s = write_rows rej post (write_rows rej (pre @ [rk]) s)"
      using write_rows_append [of rej "pre @ [rk]" post s] r by simp
    have 2: "pending (conn (write_rows rej (pre @ [rk]) s)) = pending (conn (write_rows rej pre s))"
      unfolding write_rows_pending fc ..
    have 3: "error_count (write_rows rej rows s) = error_count s + 1"
      unfolding write_rows_error_count fb by simp
    have 4: "pending (conn (write_rows rej rows s)) =
        replace_all (pending (conn s)) (map bind_params (pre @ post))"
      unfolding write_rows_pending fa ..
    have 5: "length (map bind_params (pre @ post)) = length rows - 1"
      using r by simp
    have 6: "distinct (map unique_key (map bind_params (pre @ post))) \<longrightarrow>
         filter (\<lambda>p. unique_key p \<in> unique_key ` set (map bind_params (pre @ post)))
           (pending (conn (write_rows rej rows s))) = map bind_params (pre @ post)"
      unfolding 4 using replace_all_distinct by blast
    show ?thesis
      by (intro conjI) (rule 1, rule 2, rule 3, rule 4, rule 5, rule 6)
  qed
  have inv: "row_errors s = min 10 (error_count s) \<longrightarrow>
      row_errors (write_rows rej rows s) = min 10 (error_count (write_rows rej rows s)) \<and>
      row_errors (write_rows rej rows s) \<le> 10"
    using write_rows_row_errors [of s rej rows] by simp
  have run: "\<forall>s'. main w = Returned s' \<longrightarrow>
      row_errors s' = min 10 (error_count s') \<and> row_errors s' \<le> 10"
    using main_row_errors [of w] by simp
  have single: "rows = pre @ rk # post \<and> (\<forall>r \<in> set (pre @ post). accepted rej r) \<and>
      \<not> accepted rej rk \<longrightarrow>
      write_rows rej rows s = write_rows rej post (write_rows rej (pre @ [rk]) s) \<and>
      pending (conn (write_rows rej (pre @ [rk]) s)) = pending (conn (write_rows rej pre s)) \<and>
      error_count (write_rows rej rows s) = error_count s + 1 \<and>
      pending (conn (write_rows rej rows s)) =
        replace_all (pending (conn s)) (map bind_params (pre @ post)) \<and>
      length (map bind_params (pre @ post)) = length rows - 1 \<and>
      (distinct (map unique_key (map bind_params (pre @ post))) \<longrightarrow>
         filter (\<lambda>p. unique_key p \<in> unique_key ` set (map bind_params (pre @ post)))
           (pending (conn (write_rows rej rows s))) = map bind_params (pre @ post))"
    using one by blast
  show ?thesis
    by (intro conjI)
       (rule write_rows_error_count, rule write_rows_pending, rule single, rule inv, rule run)
qed

text \<open>
  The three rows of the extract on an empty table, the sink rejecting key 2: one error,
  one message, and the table holds the second write of key 1.
\<close>

theorem per_row_failures_witness:
  "error_count (write_rows (rejects demo_world) (df_rows (clean_data demo_lib demo_chunk))
     (initial_state [])) = 1 \<and>
   pending (conn (write_rows (rejects demo_world) (df_rows (clean_data demo_lib demo_chunk))
     (initial_state []))) = [demo_params3] \<and>
   row_errors (write_rows (rejects demo_world) (df_rows (clean_data demo_lib demo_chunk))
     (initial_state [])) = 1"
proof -
  let ?rows = "df_rows (clean_data demo_lib demo_chunk)"
  let ?rej = "rejects demo_world"
  have ok: "\<forall>r \<in> set ([?rows ! 0] @ [?rows ! 2]). accepted ?rej r"
    and bad: "\<not> accepted ?rej (?rows ! 1)"
    by (simp_all add: accepted_def demo_bound_nth demo_keys demo_world_def del: One_nat_def)
  have i: "row_errors (initial_state []) = min 10 (error_count (initial_state []))"
    and e: "error_count (initial_state []) = 0" and p: "pending (conn (initial_state [])) = []"
    by (simp_all add: initial_state_def row_errors_def)
  note t = per_row_failures [of ?rej ?rows "initial_state []" "[?rows ! 0]" "?rows ! 1" "[?rows ! 2]" demo_world]
  have hyp: "?rows = [?rows ! 0] @ ?rows ! 1 # [?rows ! 2] \<and>
      (\<forall>r \<in> set ([?rows ! 0] @ [?rows ! 2]). accepted ?rej r) \<and> \<not> accepted ?rej (?rows ! 1)"
    by (intro conjI) (rule demo_rows_split, rule ok, rule bad)
  note one = t [THEN conjunct2, THEN conjunct2, THEN conjunct1, THEN mp, OF hyp]
  note inv = t [THEN conjunct2, THEN conjunct2, THEN conjunct2, THEN conjunct1, THEN mp, OF i]
  have a: "error_count (write_rows ?rej ?rows (initial_state [])) = 1"
    using one [THEN conjunct2, THEN conjunct2, THEN conjunct1] e by simp
  have "pending (conn (write_rows ?rej ?rows (initial_state []))) =
      replace_all (pending (conn (initial_state []))) (map bind_params ([?rows ! 0] @ [?rows ! 2]))"
    by (rule one [THEN conjunct2, THEN conjunct2, THEN conjunct2, THEN conjunct1])
  then have b: "pending (conn (write_rows ?rej ?rows (initial_state []))) = [demo_params3]"
    by (simp add: p demo_bound_nth demo_table)
  have c: "row_errors (write_rows ?rej ?rows (initial_state [])) = 1"
    using inv [THEN conjunct1] a by simp
  show ?thesis
    by (intro conjI) (rule a, rule b, rule c)
qed

text \<open>
  C7. When the connection opens, both reads of the extract succeed and every commit
  succeeds, the run ends normally and the total it reports is the sum of the lengths of
  the chunks read: every input row counts once, whatever the sink did with it.
\<close>

theorem total_rows_reported:
  assumes "connect_result w = Inr tbl" and "sample w = Inr sample_df"
    and "reads w = map Chunk cs" and "\<forall>n. commit_error w n = None"
  shows "\<exists>s. main w = Returned s \<and> total_rows s = sum_list (map len_df cs) \<and>
     TotalRows (sum_list (map len_df cs)) \<in> set (out s)"
proof -
  from main_normal [OF assms] obtain s2 where
    "total_rows s2 = sum_list (map len_df cs)" "main w = Returned (finally_clause (report w s2))"
    by blast
  then show ?thesis
    by (simp add: finally_fields report_fields)
qed

text \<open>
  The extract: three rows read, of which one is rejected and two share a key; the total
  reported is 3.
\<close>

theorem total_rows_reported_witness:
  "\<exists>s. main demo_world = Returned s \<and> total_rows s = 3 \<and> TotalRows 3 \<in> set (out s)"
proof -
  have h: "connect_result demo_world = Inr []"
    "sample demo_world = Inr (demo_chunk\<lparr>df_rows := [demo_row1]\<rparr>)"
    "reads demo_world = map Chunk [demo_chunk]" "\<forall>n. commit_error demo_world n = None"
    by (simp_all add: demo_world_def)
  show ?thesis
    using total_rows_reported [OF h] by (simp add: demo_rows_len)
qed






end
